theory Spec2Isabelle
  imports Complex_Main "HOL-Library.Product_Lexorder"
begin

section \<open>Data model of the field-indices notebook\<close>

text \<open>
  The notebook \<^verbatim>\<open>field_indices.ipynb\<close> drives the EOdal library: EOdal queries the
  catalog, loads and pre-processes the scenes, and the notebook's own code filters the
  loaded scenes, records why a scene was dropped, and hands the kept scenes to the
  export and plotting functions. The model below covers the notebook's code. What EOdal
  computes is taken as given: a scene carries the values of the EOdal properties and
  methods the notebook reads.
\<close>

subsection \<open>Timestamps and their formatting\<close>

text \<open>
  A timestamp is (year, month, day, hour, minute, second); a date is (year, month, day).
  The lexicographic order on the tuples is the chronological order.
\<close>

type_synonym datetime = "nat \<times> nat \<times> nat \<times> nat \<times> nat \<times> nat"
type_synonym date = "nat \<times> nat \<times> nat"

definition digit_char :: "nat \<Rightarrow> char" where
  "digit_char n = ''0123456789'' ! (n mod 10)"

definition zero_pad2 :: "nat \<Rightarrow> string" where
  "zero_pad2 n = [digit_char (n div 10), digit_char n]"

definition zero_pad4 :: "nat \<Rightarrow> string" where
  "zero_pad4 n =
     [digit_char (n div 1000), digit_char (n div 100), digit_char (n div 10), digit_char n]"

text \<open>\<^verbatim>\<open>strftime('%Y-%m-%d %H:%M')\<close>, for four-digit years.\<close>

fun strftime_minute :: "datetime \<Rightarrow> string" where
  "strftime_minute (Y, M, D, h, m, s) =
     zero_pad4 Y @ ''-'' @ zero_pad2 M @ ''-'' @ zero_pad2 D @ '' '' @ zero_pad2 h @ '':'' @ zero_pad2 m"

text \<open>\<^verbatim>\<open>strftime('%Y-%m-%d')\<close>, for four-digit years.\<close>

fun strftime_date :: "date \<Rightarrow> string" where
  "strftime_date (Y, M, D) = zero_pad4 Y @ ''-'' @ zero_pad2 M @ ''-'' @ zero_pad2 D"

subsection \<open>Scenes, metadata rows, the mapper\<close>

text \<open>
  A loaded scene, as far as the notebook looks at it: the EOdal property
  \<^verbatim>\<open>is_blackfilled\<close>, the EOdal method \<^verbatim>\<open>get_cloudy_pixel_percentage\<close> (a function of the
  list of classification codes counted as cloudy, giving a percentage that is taken as
  an exact number), and the spectral indices that \<^verbatim>\<open>calc_si(..., inplace=True)\<close> has
  been asked to add, in call order.
\<close>

record scene =
  is_blackfilled :: bool
  get_cloudy_pixel_percentage :: "nat list \<Rightarrow> rat"
  si_bands :: "string list"

definition calc_si :: "string \<Rightarrow> scene \<Rightarrow> scene" where
  "calc_si name sc = sc\<lparr>si_bands := si_bands sc @ [name]\<rparr>"

text \<open>One row of \<^verbatim>\<open>mapper.metadata\<close>: one row per scene the catalog returned.\<close>

record metadata_row =
  product_uri :: string
  sensing_time :: datetime
  sensing_date :: date
  scene_used :: string

text \<open>
  The mapper after \<^verbatim>\<open>query_scenes\<close> and \<^verbatim>\<open>load_scenes\<close>: the metadata table and the scene
  collection, a dictionary from scene identifier (the acquisition timestamp) to scene,
  kept as the list of its items in iteration order.
\<close>

record mapper =
  metadata :: "metadata_row list"
  data :: "(datetime \<times> scene) list"

datatype py_error = KeyError | IndexError | TypeError | ValueError | AttributeError

section \<open>extract\_s2\_data\<close>

text \<open>The classification codes both EOdal calls are given as cloudy.\<close>

definition cloud_classes :: "nat list" where
  "cloud_classes = [3, 8, 9, 10, 11]"

text \<open>
  The row selector
  \<^verbatim>\<open>metadata.sensing_time.dt.strftime('%Y-%m-%d %H:%M') == scene_id.strftime('%Y-%m-%d %H:%M')[0:16]\<close>.
\<close>

definition minute_match :: "datetime \<Rightarrow> metadata_row \<Rightarrow> bool" where
  "minute_match scene_id row =
     (strftime_minute (sensing_time row) = take 16 (strftime_minute scene_id))"

text \<open>\<^verbatim>\<open>mapper.metadata.loc[<selector>, 'scene_used'] = v\<close>.\<close>

definition set_scene_used :: "datetime \<Rightarrow> string \<Rightarrow> metadata_row list \<Rightarrow> metadata_row list" where
  "set_scene_used scene_id v md =
     map (\<lambda>row. if minute_match scene_id row then row\<lparr>scene_used := v\<rparr> else row) md"

text \<open>
  The state of the loop over \<^verbatim>\<open>mapper.data\<close>: the identifiers to delete, the metadata
  table, and the scenes visited so far (a scene that passes both checks is changed in
  place by \<^verbatim>\<open>calc_si\<close>).
\<close>

record loop_state =
  scenes_to_del :: "datetime list"
  meta :: "metadata_row list"
  scenes :: "(datetime \<times> scene) list"

definition loop_body :: "rat \<Rightarrow> loop_state \<Rightarrow> datetime \<times> scene \<Rightarrow> loop_state" where
  "loop_body feature_cloud_cover_threshold st item =
     (case item of (scene_id, scene) \<Rightarrow>
        if is_blackfilled scene then
          st\<lparr>scenes_to_del := scenes_to_del st @ [scene_id],
             meta := set_scene_used scene_id ''No [blackfill]'' (meta st),
             scenes := scenes st @ [(scene_id, scene)]\<rparr>
        else
          let feature_cloud_cover = get_cloudy_pixel_percentage scene cloud_classes in
          if feature_cloud_cover > feature_cloud_cover_threshold then
            st\<lparr>scenes_to_del := scenes_to_del st @ [scene_id],
               meta := set_scene_used scene_id ''No [clouds]'' (meta st),
               scenes := scenes st @ [(scene_id, scene)]\<rparr>
          else
            st\<lparr>scenes := scenes st @
                 [(scene_id, calc_si ''EVI'' (calc_si ''NDRE'' (calc_si ''NDVI'' scene)))]\<rparr>)"

text \<open>\<^verbatim>\<open>del mapper.data[scene_id]\<close>: a missing key raises KeyError.\<close>

definition del_scene ::
  "datetime \<Rightarrow> (datetime \<times> scene) list \<Rightarrow> py_error + (datetime \<times> scene) list" where
  "del_scene scene_id ds =
     (if scene_id \<in> set (map fst ds) then Inr (filter (\<lambda>item. fst item \<noteq> scene_id) ds)
      else Inl KeyError)"

fun del_scenes ::
  "datetime list \<Rightarrow> (datetime \<times> scene) list \<Rightarrow> py_error + (datetime \<times> scene) list" where
  "del_scenes [] ds = Inr ds"
| "del_scenes (scene_id # rest) ds =
     (case del_scene scene_id ds of Inl e \<Rightarrow> Inl e | Inr ds' \<Rightarrow> del_scenes rest ds')"

text \<open>
  \<^verbatim>\<open>extract_s2_data\<close> from the point where EOdal has loaded the scenes: the argument is
  the mapper after \<^verbatim>\<open>load_scenes\<close>, the result the mapper the function returns.
\<close>

definition extract_s2_data :: "rat \<Rightarrow> mapper \<Rightarrow> py_error + mapper" where
  "extract_s2_data feature_cloud_cover_threshold m =
     (let st0 = \<lparr>scenes_to_del = [],
                 meta = map (\<lambda>row. row\<lparr>scene_used := ''yes''\<rparr>) (metadata m),
                 scenes = []\<rparr>;
          st = foldl (loop_body feature_cloud_cover_threshold) st0 (data m)
      in case del_scenes (scenes_to_del st) (scenes st) of
           Inl e \<Rightarrow> Inl e
         | Inr kept \<Rightarrow> Inr \<lparr>metadata = meta st, data = kept\<rparr>)"

text \<open>The default of the parameter \<^verbatim>\<open>feature_cloud_cover_threshold\<close>.\<close>

definition default_feature_cloud_cover_threshold :: rat where
  "default_feature_cloud_cover_threshold = 20"

section \<open>Export and plotting\<close>

text \<open>
  What the export, plotting and driver code does to the outside world, in order. The
  calls into EOdal and matplotlib are recorded as they are made; what the libraries do
  with a scene is not part of the model.
\<close>

datatype event =
    Print string
  | Ensure_directory string string
  | To_rasterio datetime string string
  | Subplots nat nat
  | Suptitle string
  | Figtext nat string
  | Plot_band datetime string nat
  | Savefig string

text \<open>
  \<^verbatim>\<open>Print\<close>: the text printed. \<^verbatim>\<open>Ensure_directory index name\<close>: the sub-folder of
  \<^verbatim>\<open>base_paths[index]\<close> named after the shapefile is created if missing.
  \<^verbatim>\<open>To_rasterio scene_id index file\<close>: band \<^verbatim>\<open>index\<close> of the scene is written to the
  file of that name in this sub-folder. \<^verbatim>\<open>Figtext idx s\<close>: the title \<^verbatim>\<open>s\<close> is put over
  column \<^verbatim>\<open>idx\<close>. \<^verbatim>\<open>Plot_band scene_id band idx\<close>: the band of the scene is drawn in
  column \<^verbatim>\<open>idx\<close>. \<^verbatim>\<open>Subplots ncols nrows\<close>: the figure and its grid of axes are
  created. \<^verbatim>\<open>Suptitle s\<close>: the figure gets the main title \<^verbatim>\<open>s\<close>.
  \<^verbatim>\<open>Savefig file\<close>: the figure is saved under that file name.
\<close>

text \<open>\<^verbatim>\<open>xs[i]\<close> for an index that is not negative.\<close>

definition py_getitem :: "'a list \<Rightarrow> nat \<Rightarrow> py_error + 'a" where
  "py_getitem xs i = (if i < length xs then Inr (xs ! i) else Inl IndexError)"

text \<open>\<^verbatim>\<open>metadata[metadata['scene_used'] == 'yes']['sensing_date'].tolist()\<close>.\<close>

definition sensing_dates_with_scene_used_list :: "metadata_row list \<Rightarrow> date list" where
  "sensing_dates_with_scene_used_list md =
     map sensing_date (filter (\<lambda>row. scene_used row = ''yes'') md)"

text \<open>
  \<^verbatim>\<open>dates[idx].strftime('%Y-%m-%d') if idx < len(dates) else "No Date"\<close>, the same
  expression in the export and in the plot.
\<close>

definition sensing_date_string :: "date list \<Rightarrow> nat \<Rightarrow> py_error + string" where
  "sensing_date_string dates idx =
     (if idx < length dates then
        (case py_getitem dates idx of Inl e \<Rightarrow> Inl e | Inr d \<Rightarrow> Inr (strftime_date d))
      else Inr ''No Date'')"

definition indices :: "string list" where
  "indices = [''ndvi'', ''ndre'', ''evi'']"

text \<open>The body of the export loop for one scene: one directory check and one file per index.\<close>

definition export_scene :: "string \<Rightarrow> datetime \<Rightarrow> string \<Rightarrow> event list" where
  "export_scene shapefile_name scene_id date_string =
     concat (map (\<lambda>index.
        [Ensure_directory index shapefile_name,
         To_rasterio scene_id index
           (shapefile_name @ ''_'' @ index @ ''_'' @ date_string @ ''.tiff'')]) indices)"

text \<open>\<^verbatim>\<open>for idx, (scene_id, scene) in enumerate(res)\<close> of \<^verbatim>\<open>save_scene_as_geotiff\<close>.\<close>

fun export_loop ::
  "string \<Rightarrow> date list \<Rightarrow> nat \<Rightarrow> (datetime \<times> scene) list \<Rightarrow> py_error + event list" where
  "export_loop shapefile_name dates idx [] = Inr []"
| "export_loop shapefile_name dates idx ((scene_id, scene) # rest) =
     (case sensing_date_string dates idx of
        Inl e \<Rightarrow> Inl e
      | Inr date_string \<Rightarrow>
          (case export_loop shapefile_name dates (Suc idx) rest of
             Inl e \<Rightarrow> Inl e
           | Inr evs \<Rightarrow> Inr (export_scene shapefile_name scene_id date_string @ evs)))"

text \<open>
  \<^verbatim>\<open>save_scene_as_geotiff(scene, shapefile_name, metadata, scene_id, res)\<close>. The loop
  variables shadow the parameters \<^verbatim>\<open>scene\<close> and \<^verbatim>\<open>scene_id\<close>, which are never read.
\<close>

definition save_scene_as_geotiff ::
  "string \<Rightarrow> metadata_row list \<Rightarrow> (datetime \<times> scene) list \<Rightarrow> py_error + event list" where
  "save_scene_as_geotiff shapefile_name md res =
     export_loop shapefile_name (sensing_dates_with_scene_used_list md) 0 res"

text \<open>The body of the plot loop for one scene: the date title and the three panels.\<close>

definition plot_scene :: "datetime \<Rightarrow> nat \<Rightarrow> string \<Rightarrow> event list" where
  "plot_scene scene_id idx date_string =
     [Figtext idx date_string,
      Plot_band scene_id ''NDVI'' idx, Plot_band scene_id ''NDRE'' idx, Plot_band scene_id ''EVI'' idx]"

text \<open>\<^verbatim>\<open>for idx, (scene_id, scene) in enumerate(res)\<close> of \<^verbatim>\<open>plot_scenes\<close>.\<close>

fun plot_loop :: "date list \<Rightarrow> nat \<Rightarrow> (datetime \<times> scene) list \<Rightarrow> py_error + event list" where
  "plot_loop dates idx [] = Inr []"
| "plot_loop dates idx ((scene_id, scene) # rest) =
     (case sensing_date_string dates idx of
        Inl e \<Rightarrow> Inl e
      | Inr date_string \<Rightarrow>
          (case plot_loop dates (Suc idx) rest of
             Inl e \<Rightarrow> Inl e
           | Inr evs \<Rightarrow> Inr (plot_scene scene_id idx date_string @ evs)))"

text \<open>
  \<^verbatim>\<open>plot_scenes\<close>: the grid of axes
  (\<^verbatim>\<open>plt.subplots(ncols=len(res), nrows=3, ...)\<close>, which raises ValueError when the series
  is empty), the main title, the panels of every scene, then the figure saved as PNG
  and as PDF. The argument \<^verbatim>\<open>md\<close> is a table with the columns \<^verbatim>\<open>scene_used\<close> and
  \<^verbatim>\<open>sensing_date\<close>, as the driver passes it.
\<close>

definition plot_scenes ::
  "string \<Rightarrow> metadata_row list \<Rightarrow> (datetime \<times> scene) list \<Rightarrow> py_error + event list" where
  "plot_scenes shapefile_name md res =
     (if length res = 0 then Inl ValueError
      else
        (case plot_loop (sensing_dates_with_scene_used_list md) 0 res of
           Inl e \<Rightarrow> Inl e
         | Inr evs \<Rightarrow>
             Inr ([Subplots (length res) 3, Suptitle shapefile_name] @ evs @
                  [Savefig (shapefile_name @ ''.png''), Savefig (shapefile_name @ ''.pdf'')])))"

text \<open>Running a list of steps in order; the first error ends the run.\<close>

fun in_sequence :: "(py_error + event list) list \<Rightarrow> py_error + event list" where
  "in_sequence [] = Inr []"
| "in_sequence (step # rest) =
     (case step of
        Inl e \<Rightarrow> Inl e
      | Inr evs \<Rightarrow> (case in_sequence rest of Inl e \<Rightarrow> Inl e | Inr evs' \<Rightarrow> Inr (evs @ evs')))"

section \<open>The driver\<close>

text \<open>
  What \<^verbatim>\<open>query_scenes\<close> and \<^verbatim>\<open>load_scenes\<close> leave in the mapper: the columns and the rows
  of \<^verbatim>\<open>mapper.metadata\<close>, and \<^verbatim>\<open>mapper.data\<close>, which is \<^verbatim>\<open>None\<close> when the loader built no
  collection (the catalogue returned no scene). A row holds a value for a column only
  if the table has the column.
\<close>

record loader_result =
  frame_columns :: "string list"
  frame_rows :: "metadata_row list"
  collection :: "(datetime \<times> scene) list option"

text \<open>
  \<^verbatim>\<open>extract_s2_data\<close> on what the loader left. The assignment
  \<^verbatim>\<open>mapper.metadata['scene_used'] = 'yes'\<close> adds the column; the loop
  \<^verbatim>\<open>for scene_id, scene in mapper.data\<close> raises TypeError on \<^verbatim>\<open>None\<close>; recording a
  rejection reads \<^verbatim>\<open>mapper.metadata.sensing_time\<close>, which raises AttributeError when the
  table has no such column.
\<close>

definition extract_s2_data_from_loader :: "rat \<Rightarrow> loader_result \<Rightarrow> py_error + loader_result" where
  "extract_s2_data_from_loader feature_cloud_cover_threshold loaded =
     (case collection loaded of
        None \<Rightarrow> Inl TypeError
      | Some ds \<Rightarrow>
          if ''sensing_time'' \<notin> set (frame_columns loaded)
             \<and> (\<exists>item\<in>set ds. is_blackfilled (snd item)
                    \<or> get_cloudy_pixel_percentage (snd item) cloud_classes
                         > feature_cloud_cover_threshold)
          then Inl AttributeError
          else
            (case extract_s2_data feature_cloud_cover_threshold
                    \<lparr>metadata = frame_rows loaded, data = ds\<rparr> of
               Inl e \<Rightarrow> Inl e
             | Inr res \<Rightarrow>
                 Inr \<lparr>frame_columns =
                        (if ''scene_used'' \<in> set (frame_columns loaded) then frame_columns loaded
                         else frame_columns loaded @ [''scene_used'']),
                      frame_rows = metadata res,
                      collection = Some (data res)\<rparr>))"

text \<open>
  The body of \<^verbatim>\<open>process_shapefiles_in_subfolders\<close> for one shapefile, from the state the
  loader left: \<^verbatim>\<open>extract_s2_data\<close> with its default threshold; the column selection
  \<^verbatim>\<open>res.metadata[['product_uri', 'sensing_date', 'scene_used']]\<close>, which raises KeyError
  when a column is missing; one call of \<^verbatim>\<open>save_scene_as_geotiff\<close> for every kept scene
  (each call exports the whole series); and the plot if \<^verbatim>\<open>res.data\<close> is not empty,
  the message otherwise.
\<close>

definition process_shapefile :: "string \<Rightarrow> loader_result \<Rightarrow> py_error + event list" where
  "process_shapefile shapefile_name loaded =
     (case extract_s2_data_from_loader default_feature_cloud_cover_threshold loaded of
        Inl e \<Rightarrow> Inl e
      | Inr res \<Rightarrow>
          if \<not> (''product_uri'' \<in> set (frame_columns res)
                \<and> ''sensing_date'' \<in> set (frame_columns res)
                \<and> ''scene_used'' \<in> set (frame_columns res))
          then Inl KeyError
          else
            (case collection res of
               None \<Rightarrow> Inl TypeError
             | Some kept \<Rightarrow>
                 in_sequence
                   ([Inr [Print (''Processing '' @ shapefile_name)]] @
                    map (\<lambda>item. save_scene_as_geotiff shapefile_name (frame_rows res) kept) kept @
                    [if kept \<noteq> [] then plot_scenes shapefile_name (frame_rows res) kept
                     else Inr [Print (''No data available for '' @ shapefile_name)]])))"

section \<open>Notions used to state the properties\<close>

text \<open>A scene is rejected when one of the two checks of the loop fires.\<close>

definition rejected :: "rat \<Rightarrow> scene \<Rightarrow> bool" where
  "rejected thr sc = (is_blackfilled sc \<or> get_cloudy_pixel_percentage sc cloud_classes > thr)"

text \<open>The text the loop writes for a rejected scene.\<close>

definition reject_label :: "scene \<Rightarrow> string" where
  "reject_label sc = (if is_blackfilled sc then ''No [blackfill]'' else ''No [clouds]'')"

text \<open>What one scene of the loop does to one metadata row.\<close>

definition relabel :: "rat \<Rightarrow> metadata_row \<Rightarrow> datetime \<times> scene \<Rightarrow> metadata_row" where
  "relabel thr row item =
     (if rejected thr (snd item) \<and> minute_match (fst item) row
      then row\<lparr>scene_used := reject_label (snd item)\<rparr> else row)"

text \<open>What the loop does to one scene of the collection.\<close>

definition visit :: "rat \<Rightarrow> datetime \<times> scene \<Rightarrow> datetime \<times> scene" where
  "visit thr item =
     (if rejected thr (snd item) then item
      else (fst item, calc_si ''EVI'' (calc_si ''NDRE'' (calc_si ''NDVI'' (snd item)))))"

definition add_indices :: "datetime \<times> scene \<Rightarrow> datetime \<times> scene" where
  "add_indices item =
     (fst item, calc_si ''EVI'' (calc_si ''NDRE'' (calc_si ''NDVI'' (snd item))))"

text \<open>The rejected scenes of a collection that select a given row, in loop order.\<close>

definition hits :: "rat \<Rightarrow> (datetime \<times> scene) list \<Rightarrow> metadata_row \<Rightarrow> (datetime \<times> scene) list" where
  "hits thr ds row =
     filter (\<lambda>item. rejected thr (snd item) \<and> minute_match (fst item) row) ds"

text \<open>
  The timestamps of the calendar with a four-digit year, and a timestamp cut to the
  minute.
\<close>

fun valid_datetime :: "datetime \<Rightarrow> bool" where
  "valid_datetime (Y, M, D, h, m, s) =
     (1000 \<le> Y \<and> Y \<le> 9999 \<and> 1 \<le> M \<and> M \<le> 12 \<and> 1 \<le> D \<and> D \<le> 31
      \<and> h < 24 \<and> m < 60 \<and> s < 60)"

fun to_minute :: "datetime \<Rightarrow> nat \<times> nat \<times> nat \<times> nat \<times> nat" where
  "to_minute (Y, M, D, h, m, s) = (Y, M, D, h, m)"


text \<open>
  The text a row ends with: that of the last rejected scene that selects the row, and
  \<^verbatim>\<open>yes\<close> if no rejected scene selects it.
\<close>

definition final_label :: "rat \<Rightarrow> (datetime \<times> scene) list \<Rightarrow> metadata_row \<Rightarrow> string" where
  "final_label thr ds row =
     (if hits thr ds row = [] then ''yes'' else reject_label (snd (last (hits thr ds row))))"

text \<open>The text of the first check of the loop that fires for a scene, \<^verbatim>\<open>yes\<close> if none does.\<close>

definition scene_outcome :: "rat \<Rightarrow> scene \<Rightarrow> string" where
  "scene_outcome thr sc =
     (if is_blackfilled sc then ''No [blackfill]''
      else if get_cloudy_pixel_percentage sc cloud_classes > thr then ''No [clouds]''
      else ''yes'')"



section \<open>A run used as an example\<close>

text \<open>
  Four catalogue rows and four loaded scenes. The first scene is blackfilled, the second
  has 25 percent of cloudy pixels, the third has 60 percent and an identifier one minute
  after the sensing time of its row, the fourth has exactly 20 percent.
\<close>

definition example_row :: "string \<Rightarrow> datetime \<Rightarrow> metadata_row" where
  "example_row uri t =
     \<lparr>product_uri = uri, sensing_time = t,
      sensing_date = (fst t, fst (snd t), fst (snd (snd t))), scene_used = []\<rparr>"

definition example_scene :: "bool \<Rightarrow> rat \<Rightarrow> scene" where
  "example_scene blackfilled percentage =
     \<lparr>is_blackfilled = blackfilled, get_cloudy_pixel_percentage = (\<lambda>classes. percentage),
      si_bands = []\<rparr>"

definition example_mapper :: mapper where
  "example_mapper =
     \<lparr>metadata =
        [example_row ''S2A_0501'' (2023, 5, 1, 10, 30, 19),
         example_row ''S2B_0506'' (2023, 5, 6, 10, 30, 21),
         example_row ''S2A_0511'' (2023, 5, 11, 10, 30, 59),
         example_row ''S2B_0516'' (2023, 5, 16, 10, 30, 31)],
      data =
        [((2023, 5, 1, 10, 30, 19), example_scene True 100),
         ((2023, 5, 6, 10, 30, 21), example_scene False 25),
         ((2023, 5, 11, 10, 31, 4), example_scene False 60),
         ((2023, 5, 16, 10, 30, 31), example_scene False 20)]\<rparr>"




text \<open>
  Two scenes acquired within the same minute, each with its own catalogue row: the
  first is blackfilled, the second has 60 percent of cloudy pixels. Both rows are
  selected by both scenes.
\<close>

definition clash_mapper :: mapper where
  "clash_mapper =
     \<lparr>metadata =
        [example_row ''S2A_T32TMT'' (2023, 6, 1, 10, 30, 5),
         example_row ''S2A_T32TLT'' (2023, 6, 1, 10, 30, 50)],
      data =
        [((2023, 6, 1, 10, 30, 5), example_scene True 0),
         ((2023, 6, 1, 10, 30, 50), example_scene False 60)]\<rparr>"

definition clash_result :: mapper where
  "clash_result =
     \<lparr>metadata =
        [(example_row ''S2A_T32TMT'' (2023, 6, 1, 10, 30, 5))\<lparr>scene_used := ''No [clouds]''\<rparr>,
         (example_row ''S2A_T32TLT'' (2023, 6, 1, 10, 30, 50))\<lparr>scene_used := ''No [clouds]''\<rparr>],
      data = []\<rparr>"


lemmas example_defs =
  example_mapper_def example_row_def example_scene_def minute_match_def
  zero_pad4_def zero_pad2_def digit_char_def cloud_classes_def

section \<open>Matching to the minute\<close>

text \<open>
  Two valid timestamps have the same text under \<^verbatim>\<open>%Y-%m-%d %H:%M\<close> iff they agree up to
  the minute; the slice \<^verbatim>\<open>[0:16]\<close> keeps the whole text.
\<close>

lemma digit_char_eq_iff: "digit_char a = digit_char b \<longleftrightarrow> a mod 10 = b mod 10"
  unfolding digit_char_def by (rule nth_eq_iff_index_eq) simp_all
lemma same_digits:
  fixes x y :: nat
  shows "x mod 10 = y mod 10 \<Longrightarrow> x div 10 = y div 10 \<Longrightarrow> x = y"
  by (metis div_mult_mod_eq)
lemma zero_pad4_eq_iff:
  assumes "a < 10000" and "b < 10000"
  shows "zero_pad4 a = zero_pad4 b \<longleftrightarrow> a = b"
proof
  assume "zero_pad4 a = zero_pad4 b"
  then have d3: "(a div 1000) mod 10 = (b div 1000) mod 10"
    and d2: "(a div 100) mod 10 = (b div 100) mod 10"
    and d1: "(a div 10) mod 10 = (b div 10) mod 10"
    and d0: "a mod 10 = b mod 10"
    by (simp_all add: zero_pad4_def digit_char_eq_iff)
  have up: "n div 100 div 10 = n div 1000" "n div 10 div 10 = n div 100" for n :: nat
    by (simp_all add: div_mult2_eq [symmetric])
  from assms have "a div 1000 < 10" "b div 1000 < 10"
    by (simp_all add: less_mult_imp_div_less)
  with d3 have "a div 1000 = b div 1000" by simp
  then have "a div 100 div 10 = b div 100 div 10" by (simp add: up)
  with d2 have "a div 100 = b div 100" by (rule same_digits)
  then have "a div 10 div 10 = b div 10 div 10" by (simp add: up)
  with d1 have "a div 10 = b div 10" by (rule same_digits)
  with d0 show "a = b" by (rule same_digits)
qed simp

lemma zero_pad2_eq_iff:
  assumes "a < 100" and "b < 100"
  shows "zero_pad2 a = zero_pad2 b \<longleftrightarrow> a = b"
proof
  assume "zero_pad2 a = zero_pad2 b"
  then have d1: "(a div 10) mod 10 = (b div 10) mod 10" and d0: "a mod 10 = b mod 10"
    by (simp_all add: zero_pad2_def digit_char_eq_iff)
  from assms have "a div 10 < 10" "b div 10 < 10"
    by (simp_all add: less_mult_imp_div_less)
  with d1 have "a div 10 = b div 10" by simp
  with d0 show "a = b" by (rule same_digits)
qed simp

lemma length_strftime_minute [simp]: "length (strftime_minute t) = 16"
  by (cases t) (simp add: zero_pad4_def zero_pad2_def)

lemma strftime_minute_eq_iff:
  assumes "valid_datetime t" and "valid_datetime t'"
  shows "strftime_minute t = strftime_minute t' \<longleftrightarrow> to_minute t = to_minute t'"
proof -
  obtain Y M D h m s where t: "t = (Y, M, D, h, m, s)" by (cases t)
  obtain Y' M' D' h' m' s' where t': "t' = (Y', M', D', h', m', s')" by (cases t')
  have l4: "length (zero_pad4 Y) = length (zero_pad4 Y')" by (simp add: zero_pad4_def)
  have l2: "length (zero_pad2 a) = length (zero_pad2 b)" for a b by (simp add: zero_pad2_def)
  from assms have "zero_pad4 Y = zero_pad4 Y' \<longleftrightarrow> Y = Y'" "zero_pad2 M = zero_pad2 M' \<longleftrightarrow> M = M'"
    "zero_pad2 D = zero_pad2 D' \<longleftrightarrow> D = D'" "zero_pad2 h = zero_pad2 h' \<longleftrightarrow> h = h'"
    "zero_pad2 m = zero_pad2 m' \<longleftrightarrow> m = m'"
    unfolding t t' by (simp_all add: zero_pad4_eq_iff zero_pad2_eq_iff)
  then show ?thesis
    unfolding t t' by (simp add: append_eq_append_conv l4 l2)
qed

lemma minute_match_iff:
  assumes "valid_datetime scene_id" and "valid_datetime (sensing_time row)"
  shows "minute_match scene_id row \<longleftrightarrow> to_minute (sensing_time row) = to_minute scene_id"
  by (simp add: minute_match_def strftime_minute_eq_iff [OF assms(2) assms(1)])

section \<open>The loop of extract\_s2\_data, in closed form\<close>

lemma minute_match_scene_used [simp]:
  "minute_match k (row\<lparr>scene_used := v\<rparr>) = minute_match k row"
  by (simp add: minute_match_def)

lemma loop_body_meta:
  "meta (loop_body thr st item) = map (\<lambda>row. relabel thr row item) (meta st)"
  by (cases item)
     (auto simp: loop_body_def relabel_def rejected_def reject_label_def set_scene_used_def Let_def)

lemma loop_body_scenes:
  "scenes (loop_body thr st item) = scenes st @ [visit thr item]"
  by (cases item) (auto simp: loop_body_def visit_def rejected_def Let_def)

lemma loop_body_dels:
  "scenes_to_del (loop_body thr st item) =
     scenes_to_del st @ (if rejected thr (snd item) then [fst item] else [])"
  by (cases item) (auto simp: loop_body_def rejected_def Let_def)

lemma loop_meta:
  "meta (foldl (loop_body thr) st ds) = map (\<lambda>row. foldl (relabel thr) row ds) (meta st)"
  by (induction ds arbitrary: st) (simp_all add: loop_body_meta comp_def)

lemma loop_scenes:
  "scenes (foldl (loop_body thr) st ds) = scenes st @ map (visit thr) ds"
  by (induction ds arbitrary: st) (simp_all add: loop_body_scenes)

lemma loop_dels:
  "scenes_to_del (foldl (loop_body thr) st ds) =
     scenes_to_del st @ map fst (filter (\<lambda>item. rejected thr (snd item)) ds)"
  by (induction ds arbitrary: st) (simp_all add: loop_body_dels)

subsection \<open>Deleting the rejected scenes\<close>

lemma keys_after_del:
  fixes ks :: "'a list" and ds :: "('a \<times> 'b) list"
  shows "k \<notin> set ks \<Longrightarrow> set ks \<subseteq> fst ` set ds \<Longrightarrow>
     set ks \<subseteq> fst ` set (filter (\<lambda>item. fst item \<noteq> k) ds)"
  by force

text \<open>Deleting distinct keys that are all present never raises, and removes exactly them.\<close>

lemma del_scenes_distinct:
  "distinct ks \<Longrightarrow> set ks \<subseteq> fst ` set ds \<Longrightarrow>
     del_scenes ks ds = Inr (filter (\<lambda>item. fst item \<notin> set ks) ds)"
proof (induction ks arbitrary: ds)
  case Nil
  then show ?case by simp
next
  case (Cons k ks)
  let ?ds' = "filter (\<lambda>item. fst item \<noteq> k) ds"
  from Cons.prems have del: "del_scene k ds = Inr ?ds'"
    by (simp add: del_scene_def)
  from Cons.prems have "set ks \<subseteq> fst ` set ?ds'"
    using keys_after_del [of k ks ds] by simp
  with Cons.prems Cons.IH [of ?ds']
  have "del_scenes ks ?ds' = Inr (filter (\<lambda>item. fst item \<notin> set ks) ?ds')"
    by simp
  with del show ?case
    by (simp add: conj_commute)
qed

lemma visit_fst [simp]: "fst (visit thr item) = fst item"
  by (simp add: visit_def)

lemma fst_add_indices [simp]: "fst (add_indices item) = fst item"
  by (simp add: add_indices_def)

lemma keys_add_indices: "fst ` set (map add_indices xs) = fst ` set xs"
  by (simp add: image_image)

text \<open>In a dictionary a key belongs to one scene, so a key is deleted iff its scene is rejected.\<close>

lemma key_rejected_iff:
  assumes "distinct (map fst ds)" and "item \<in> set ds"
  shows "fst item \<in> fst ` set (filter (\<lambda>i. rejected thr (snd i)) ds) \<longleftrightarrow> rejected thr (snd item)"
proof
  assume "fst item \<in> fst ` set (filter (\<lambda>i. rejected thr (snd i)) ds)"
  then obtain i where i: "i \<in> set ds" "rejected thr (snd i)" "fst i = fst item"
    by auto
  with assms have "snd i = snd item"
    by (metis eq_key_imp_eq_value prod.collapse)
  with i show "rejected thr (snd item)" by simp
next
  assume "rejected thr (snd item)"
  with assms(2) show "fst item \<in> fst ` set (filter (\<lambda>i. rejected thr (snd i)) ds)"
    by force
qed

lemma kept_scenes:
  assumes "distinct (map fst ds)"
  shows "filter (\<lambda>item. fst item \<notin> set (map fst (filter (\<lambda>i. rejected thr (snd i)) ds)))
           (map (visit thr) ds)
         = map add_indices (filter (\<lambda>item. \<not> rejected thr (snd item)) ds)"
proof -
  have "filter (\<lambda>item. fst item \<notin> set (map fst (filter (\<lambda>i. rejected thr (snd i)) ds)))
           (map (visit thr) ds)
        = map (visit thr) (filter (\<lambda>item. \<not> rejected thr (snd item)) ds)"
    using key_rejected_iff [OF assms]
    by (simp add: filter_map comp_def cong: filter_cong)
  also have "\<dots> = map add_indices (filter (\<lambda>item. \<not> rejected thr (snd item)) ds)"
    by (rule map_cong) (auto simp: visit_def add_indices_def)
  finally show ?thesis .
qed

lemma kept_keys:
  assumes "distinct (map fst ds)" and "item \<in> set ds"
  shows "fst item \<in> fst ` set (map add_indices (filter (\<lambda>i. \<not> rejected thr (snd i)) ds))
           \<longleftrightarrow> \<not> rejected thr (snd item)"
proof
  assume "fst item \<in> fst ` set (map add_indices (filter (\<lambda>i. \<not> rejected thr (snd i)) ds))"
  then obtain i where i: "i \<in> set ds" "\<not> rejected thr (snd i)" "fst i = fst item"
    unfolding keys_add_indices by auto
  with assms have "snd i = snd item"
    by (metis eq_key_imp_eq_value prod.collapse)
  with i show "\<not> rejected thr (snd item)" by simp
next
  assume "\<not> rejected thr (snd item)"
  with assms(2) show "fst item \<in> fst ` set (map add_indices (filter (\<lambda>i. \<not> rejected thr (snd i)) ds))"
    unfolding keys_add_indices by simp
qed

subsection \<open>The whole function\<close>

lemma extract_s2_data_eq:
  assumes "distinct (map fst (data m))"
  shows "extract_s2_data thr m =
           Inr \<lparr>metadata = map (\<lambda>row. foldl (relabel thr) (row\<lparr>scene_used := ''yes''\<rparr>) (data m))
                             (metadata m),
                data = map add_indices (filter (\<lambda>item. \<not> rejected thr (snd item)) (data m))\<rparr>"
proof -
  let ?rej = "filter (\<lambda>i. rejected thr (snd i)) (data m)"
  have d: "distinct (map fst ?rej)"
    using assms by (rule distinct_map_filter)
  have s: "set (map fst ?rej) \<subseteq> fst ` set (map (visit thr) (data m))"
    by force
  define st where "st = foldl (loop_body thr)
     \<lparr>scenes_to_del = [], meta = map (\<lambda>row. row\<lparr>scene_used := ''yes''\<rparr>) (metadata m), scenes = []\<rparr>
     (data m)"
  have dels: "scenes_to_del st = map fst ?rej"
    by (simp add: st_def loop_dels)
  have scs: "scenes st = map (visit thr) (data m)"
    by (simp add: st_def loop_scenes)
  have md: "meta st = map (\<lambda>row. foldl (relabel thr) (row\<lparr>scene_used := ''yes''\<rparr>) (data m))
                             (metadata m)"
    by (simp add: st_def loop_meta comp_def)
  have "del_scenes (scenes_to_del st) (scenes st) =
          Inr (map add_indices (filter (\<lambda>item. \<not> rejected thr (snd item)) (data m)))"
    unfolding dels scs del_scenes_distinct [OF d s] kept_scenes [OF assms] ..
  then show ?thesis
    unfolding extract_s2_data_def Let_def st_def [symmetric]
    by (simp add: md)
qed

subsection \<open>What the loop leaves in a row\<close>

lemma minute_match_relabel [simp]:
  "minute_match k (relabel thr row item) = minute_match k row"
  by (simp add: relabel_def)

lemma hits_snoc:
  "hits thr (ds @ [item]) row =
     hits thr ds row @ (if rejected thr (snd item) \<and> minute_match (fst item) row then [item] else [])"
  by (simp add: hits_def)

lemma foldl_relabel:
  "foldl (relabel thr) row ds =
     (if hits thr ds row = [] then row
      else row\<lparr>scene_used := reject_label (snd (last (hits thr ds row)))\<rparr>)"
proof (induction ds rule: rev_induct)
  case Nil
  show ?case by (simp add: hits_def)
next
  case (snoc item ds)
  show ?case
    by (simp add: snoc.IH hits_snoc) (simp add: relabel_def minute_match_def)
qed

lemma hits_scene_used [simp]: "hits thr ds (row\<lparr>scene_used := v\<rparr>) = hits thr ds row"
  by (simp add: hits_def)

lemma extract_s2_data_rows:
  assumes "distinct (map fst (data m))"
  shows "extract_s2_data thr m =
           Inr \<lparr>metadata = map (\<lambda>row. row\<lparr>scene_used := final_label thr (data m) row\<rparr>) (metadata m),
                data = map add_indices (filter (\<lambda>item. \<not> rejected thr (snd item)) (data m))\<rparr>"
  unfolding extract_s2_data_eq [OF assms]
  by (simp add: foldl_relabel final_label_def)


lemma scene_outcome_eq:
  "scene_outcome thr sc = (if rejected thr sc then reject_label sc else ''yes'')"
  by (simp add: scene_outcome_def rejected_def reject_label_def)

text \<open>
  A row that a scene selects, and no other rejected scene, ends with the outcome of that
  scene.
\<close>

lemma unique_hit_label:
  assumes d: "distinct (map fst ds)" and mem: "(scene_id, sc) \<in> set ds"
    and mt: "minute_match scene_id row"
    and others: "\<forall>item\<in>set ds. fst item \<noteq> scene_id \<and> rejected thr (snd item)
                   \<longrightarrow> \<not> minute_match (fst item) row"
  shows "final_label thr ds row = scene_outcome thr sc"
proof (cases "hits thr ds row = []")
  case True
  have "\<not> rejected thr sc"
  proof
    assume "rejected thr sc"
    with mem mt have "(scene_id, sc) \<in> set (hits thr ds row)"
      by (simp add: hits_def)
    with True show False by simp
  qed
  with True show ?thesis by (simp add: final_label_def scene_outcome_eq)
next
  case False
  define h where "h = last (hits thr ds row)"
  from False have "h \<in> set (hits thr ds row)"
    unfolding h_def by (rule last_in_set)
  then have l: "h \<in> set ds" "rejected thr (snd h)" "minute_match (fst h) row"
    by (simp_all add: hits_def)
  with others have "fst h = scene_id" by blast
  with d mem l(1) have "h = (scene_id, sc)"
    by (metis eq_key_imp_eq_value prod.collapse)
  with l(2) False show ?thesis
    by (simp add: final_label_def scene_outcome_eq h_def [symmetric])
qed



lemma example_distinct: "distinct (map fst (data example_mapper))"
  by (simp add: example_mapper_def)

subsection \<open>The export and plot loops\<close>




section \<open>Properties of the pipeline\<close>

text \<open>
  Throughout, the loaded scene collection is a dictionary: its identifiers are distinct.
  Under that condition \<^verbatim>\<open>extract_s2_data\<close> never raises on a loaded collection.
\<close>

subsection \<open>The order of the two checks\<close>

text \<open>
  Claim C1. Every loaded scene is judged by the first rule that matches: a blackfilled
  scene is dropped with the reason \<^verbatim>\<open>No [blackfill]\<close>, whatever its cloud percentage;
  otherwise a scene whose parcel-level cloud percentage is strictly greater than the
  threshold is dropped with the reason \<^verbatim>\<open>No [clouds]\<close>; otherwise the scene is kept. A scene
  whose percentage equals the threshold is kept, and the default threshold is 20. The
  reason is written into every metadata row that the scene selects to the minute, so
  a row that the scene selects shows the outcome of the scene provided that no other
  rejected scene selects the same row.
\<close>

theorem quality_filter_first_match:
  assumes "distinct (map fst (data m))" and "(scene_id, sc) \<in> set (data m)"
  shows "\<exists>res. extract_s2_data thr m = Inr res
     \<and> (scene_id \<in> fst ` set (data res) \<longleftrightarrow>
          \<not> is_blackfilled sc \<and> \<not> get_cloudy_pixel_percentage sc cloud_classes > thr)
     \<and> (\<forall>i<length (metadata m).
          minute_match scene_id (metadata m ! i)
          \<and> (\<forall>item\<in>set (data m). fst item \<noteq> scene_id \<and> rejected thr (snd item)
                \<longrightarrow> \<not> minute_match (fst item) (metadata m ! i))
          \<longrightarrow> scene_used (metadata res ! i) =
                (if is_blackfilled sc then ''No [blackfill]''
                 else if get_cloudy_pixel_percentage sc cloud_classes > thr then ''No [clouds]''
                 else ''yes''))
     \<and> (\<not> is_blackfilled sc \<and> get_cloudy_pixel_percentage sc cloud_classes = thr
          \<longrightarrow> scene_id \<in> fst ` set (data res))
     \<and> default_feature_cloud_cover_threshold = 20"
proof -
  let ?kept = "map add_indices (filter (\<lambda>item. \<not> rejected thr (snd item)) (data m))"
  have kept: "scene_id \<in> fst ` set ?kept \<longleftrightarrow> \<not> rejected thr sc"
    using kept_keys [OF assms, of thr] by simp
  have label: "final_label thr (data m) (metadata m ! i) =
      (if is_blackfilled sc then ''No [blackfill]''
       else if get_cloudy_pixel_percentage sc cloud_classes > thr then ''No [clouds]''
       else ''yes'')"
    if "minute_match scene_id (metadata m ! i)"
      and "\<forall>item\<in>set (data m). fst item \<noteq> scene_id \<and> rejected thr (snd item)
             \<longrightarrow> \<not> minute_match (fst item) (metadata m ! i)"
    for i
    using unique_hit_label [OF assms that]
    by (simp add: scene_outcome_def)
  show ?thesis
    unfolding extract_s2_data_rows [OF assms(1)]
    using kept label
    by (simp add: rejected_def default_feature_cloud_cover_threshold_def)
qed

text \<open>
  In the example run the first scene is blackfilled and fully cloudy and is recorded as
  blackfill; the fourth has exactly 20 percent and is kept at the threshold 20.
\<close>

theorem quality_filter_first_match_witness:
  "distinct (map fst (data example_mapper))
   \<and> ((2023, 5, 1, 10, 30, 19), example_scene True 100) \<in> set (data example_mapper)
   \<and> ((2023, 5, 16, 10, 30, 31), example_scene False 20) \<in> set (data example_mapper)
   \<and> (\<exists>res. extract_s2_data 20 example_mapper = Inr res
        \<and> (2023, 5, 1, 10, 30, 19) \<notin> fst ` set (data res)
        \<and> scene_used (metadata res ! 0) = ''No [blackfill]''
        \<and> (2023, 5, 16, 10, 30, 31) \<in> fst ` set (data res)
        \<and> scene_used (metadata res ! 3) = ''yes'')"
proof -
  have d: "distinct (map fst (data example_mapper))"
    by (rule example_distinct)
  have m1: "((2023, 5, 1, 10, 30, 19), example_scene True 100) \<in> set (data example_mapper)"
    and m4: "((2023, 5, 16, 10, 30, 31), example_scene False 20) \<in> set (data example_mapper)"
    by (simp_all add: example_mapper_def)
  from quality_filter_first_match [OF d m1, of 20] obtain res where
    res: "extract_s2_data 20 example_mapper = Inr res"
    and k1: "(2023, 5, 1, 10, 30, 19) \<notin> fst ` set (data res)"
    and l1: "scene_used (metadata res ! 0) = ''No [blackfill]''"
    by (auto simp: example_defs)
  from quality_filter_first_match [OF d m4, of 20] res have
    "(2023, 5, 16, 10, 30, 31) \<in> fst ` set (data res)"
    and "scene_used (metadata res ! 3) = ''yes''"
    by (auto simp: example_defs)
  with d m1 m4 res k1 l1 show ?thesis by simp
qed

text \<open>
  Without the proviso the recorded reason can be that of another scene: of two scenes
  acquired within one minute, the first blackfilled and the second too cloudy, the
  second overwrites the row of the first, which then reads \<^verbatim>\<open>No [clouds]\<close>.
\<close>

theorem blackfill_recorded_as_clouds_counterexample:
  "extract_s2_data 20 clash_mapper = Inr clash_result
   \<and> is_blackfilled (snd (hd (data clash_mapper)))
   \<and> sensing_time (hd (metadata clash_mapper)) = fst (hd (data clash_mapper))
   \<and> scene_used (hd (metadata clash_result)) = ''No [clouds]''"
  by (simp add: extract_s2_data_def loop_body_def calc_si_def set_scene_used_def
        del_scene_def clash_mapper_def clash_result_def example_row_def example_scene_def
        minute_match_def zero_pad4_def zero_pad2_def digit_char_def cloud_classes_def)

subsection \<open>One record per catalogue row\<close>




subsection \<open>The order of the kept series\<close>



subsection \<open>No candidate scene\<close>

text \<open>
  Claim C7. The claim is that an empty catalogue answer ends the run for the parcel
  without error, nothing exported and nothing plotted. The code does not do that: when
  the loader built no collection, \<^verbatim>\<open>mapper.data\<close> is \<^verbatim>\<open>None\<close>, the loop of
  \<^verbatim>\<open>extract_s2_data\<close> over it raises TypeError, and the driver never reaches its branch
  that prints that no data is available.
\<close>

theorem empty_catalog_raises:
  "process_shapefile shapefile_name
     \<lparr>frame_columns = cols, frame_rows = rows, collection = None\<rparr> = Inl TypeError"
  by (simp add: process_shapefile_def extract_s2_data_from_loader_def)

text \<open>
  The guard of the driver works for a collection that exists and is empty: nothing is
  exported or plotted and the message is printed, provided that the table has the
  columns the driver selects.
\<close>

lemma empty_collection_is_skipped:
  "process_shapefile shapefile_name
     \<lparr>frame_columns = cols, frame_rows = [], collection = Some []\<rparr> =
   (if ''product_uri'' \<in> set cols \<and> ''sensing_date'' \<in> set cols
    then Inr [Print (''Processing '' @ shapefile_name),
              Print (''No data available for '' @ shapefile_name)]
    else Inl KeyError)"
  by (auto simp: process_shapefile_def extract_s2_data_from_loader_def extract_s2_data_def)

subsection \<open>Dates in file names and titles\<close>



subsection \<open>How a rejection reaches the metadata table\<close>

text \<open>
  Claim C10. A rejected scene is recorded by writing its reason into every metadata row
  whose sensing time, formatted to the minute, equals the scene identifier formatted to
  the minute: a row ends with the reason of the last rejected scene that selects it. A
  row that no rejected scene selects keeps \<^verbatim>\<open>yes\<close>, and every rejected scene is removed
  from the kept series whether or not a row records it. (For calendar timestamps the
  two texts are equal iff the timestamps agree up to the minute, by
  \<open>minute_match_iff\<close>.)
\<close>

theorem rejection_recorded_by_minute:
  assumes "distinct (map fst (data m))"
  shows "\<exists>res. extract_s2_data thr m = Inr res
     \<and> length (metadata res) = length (metadata m)
     \<and> (\<forall>i<length (metadata m).
          metadata res ! i = (metadata m ! i)\<lparr>scene_used :=
            (if hits thr (data m) (metadata m ! i) = [] then ''yes''
             else reject_label (snd (last (hits thr (data m) (metadata m ! i)))))\<rparr>)
     \<and> (\<forall>item\<in>set (data m). rejected thr (snd item) \<longrightarrow> fst item \<notin> fst ` set (data res))"
proof -
  have "\<forall>item\<in>set (data m). rejected thr (snd item) \<longrightarrow>
          fst item \<notin> fst ` set (map add_indices (filter (\<lambda>i. \<not> rejected thr (snd i)) (data m)))"
    using kept_keys [OF assms] by blast
  then show ?thesis
    unfolding extract_s2_data_rows [OF assms]
    by (simp add: final_label_def)
qed

text \<open>
  In the example run the third scene (60 percent, identifier at 10:31) is rejected and
  removed, while its row (sensed at 10:30) still says \<^verbatim>\<open>yes\<close>.
\<close>

theorem rejection_recorded_by_minute_witness:
  "distinct (map fst (data example_mapper))
   \<and> (\<exists>res. extract_s2_data 20 example_mapper = Inr res
        \<and> scene_used (metadata res ! 1) = ''No [clouds]''
        \<and> scene_used (metadata res ! 2) = ''yes''
        \<and> (2023, 5, 11, 10, 31, 4) \<notin> fst ` set (data res))"
proof -
  have d: "distinct (map fst (data example_mapper))"
    by (rule example_distinct)
  from rejection_recorded_by_minute [OF d, of 20] obtain res where
    res: "extract_s2_data 20 example_mapper = Inr res"
    and rows: "\<forall>i<length (metadata example_mapper).
          metadata res ! i = (metadata example_mapper ! i)\<lparr>scene_used :=
            (if hits 20 (data example_mapper) (metadata example_mapper ! i) = [] then ''yes''
             else reject_label (snd (last (hits 20 (data example_mapper) (metadata example_mapper ! i)))))\<rparr>"
    and gone: "\<forall>item\<in>set (data example_mapper).
          rejected 20 (snd item) \<longrightarrow> fst item \<notin> fst ` set (data res)"
    by blast
  from rows [rule_format, of 1] have r1: "scene_used (metadata res ! 1) = ''No [clouds]''"
    by (simp add: hits_def rejected_def reject_label_def example_defs)
  from rows [rule_format, of 2] have r2: "scene_used (metadata res ! 2) = ''yes''"
    by (simp add: hits_def rejected_def reject_label_def example_defs)
  from gone [rule_format, of "((2023, 5, 11, 10, 31, 4), example_scene False 60)"]
  have "(2023, 5, 11, 10, 31, 4) \<notin> fst ` set (data res)"
    by (simp add: rejected_def example_defs)
  with d res r1 r2 show ?thesis by simp
qed

end
